theory Spec2Isabelle
  imports Complex_Main "HOL-Library.AList" "HOL-Library.Multiset" "HOL-Library.Sublist"
    "HOL-Library.Word"
begin

section \<open>The bag plot of Charts/Core/vtkPlotBag.cxx\<close>

text \<open>
  The plot is embedded shallowly: the object is a record, every member function takes
  the record and returns the updated one, a null pointer is \<open>None\<close>, and an operation
  that the C++ leaves undefined (a call through a null pointer, a read past the end of an
  array) is the left summand of the result. A double is carried as the real number it
  holds; infinities and NaN are not modelled. The additions and multiplications by which
  the rebuild computes its sums and thresholds round, and are the collaborators
  \<open>double_add\<close> and \<open>double_mul\<close> below; the narrowing to float of the stored polygons is
  not part of the model; row counts and indices are unbounded. Modification timestamps
  (\<open>BuildTime\<close>, \<open>Modified()\<close>) and debug output are left out.
\<close>

subsection \<open>Tables, arrays and the plot object\<close>

type_synonym point = "real \<times> real"

datatype undefined_behaviour = NullDereference | OutOfBoundsRead

text \<open>
  Modelled from the spec: the data-table abstraction (named-column lookup, row count,
  per-row value access) and the typed numeric array abstraction are not under src/. A
  column is a numeric array of one component or an array of another kind (strings); a
  table is the ordered list of its named columns.
\<close>

datatype vtkAbstractArray = vtkDataArray "real list" | vtkStringArray "string list"

type_synonym vtkTable = "(string \<times> vtkAbstractArray) list"

fun GetNumberOfTuples :: "vtkAbstractArray \<Rightarrow> nat" where
  "GetNumberOfTuples (vtkDataArray vs) = length vs"
| "GetNumberOfTuples (vtkStringArray ss) = length ss"

definition GetColumn :: "vtkTable \<Rightarrow> nat \<Rightarrow> vtkAbstractArray option" where
  "GetColumn table col = (if col < length table then Some (snd (table ! col)) else None)"

definition GetColumnByName :: "vtkTable \<Rightarrow> string \<Rightarrow> vtkAbstractArray option" where
  "GetColumnByName table nm = map_of table nm"

definition GetColumnName :: "vtkTable \<Rightarrow> int \<Rightarrow> string option" where
  "GetColumnName table col =
     (if 0 \<le> col \<and> col < int (length table) then Some (fst (table ! nat col)) else None)"

fun SafeDownCast :: "vtkAbstractArray option \<Rightarrow> real list option" where
  "SafeDownCast (Some (vtkDataArray vs)) = Some vs"
| "SafeDownCast _ = None"

text \<open>
  Modelled from the spec: visual style objects (pen, brush) with RGBA color and
  width/opacity; vtkBrush and vtkPen are not under src/. The three-component setters
  leave the opacity alone, \<open>SetOpacity\<close> leaves the colour alone.
\<close>

record vtkBrush =
  red :: "8 word"
  green :: "8 word"
  blue :: "8 word"
  opacity :: "8 word"

record vtkPen =
  pen_color :: "8 word \<times> 8 word \<times> 8 word"
  pen_width :: real

definition SetColor :: "8 word \<Rightarrow> 8 word \<Rightarrow> 8 word \<Rightarrow> vtkBrush \<Rightarrow> vtkBrush" where
  "SetColor r g b brush = brush\<lparr>red := r, green := g, blue := b\<rparr>"

definition SetOpacity :: "8 word \<Rightarrow> vtkBrush \<Rightarrow> vtkBrush" where
  "SetOpacity a brush = brush\<lparr>opacity := a\<rparr>"

definition GetOpacity :: "vtkBrush \<Rightarrow> 8 word" where
  "GetOpacity brush = opacity brush"

definition GetColor :: "vtkBrush \<Rightarrow> 8 word \<times> 8 word \<times> 8 word \<times> 8 word" where
  "GetColor brush = (red brush, green brush, blue brush, opacity brush)"

text \<open>
  The 2D drawing context is the list of the commands it has received, oldest first;
  \<open>ApplyBrush\<close> and \<open>ApplyPen\<close> copy the style object they are given.
\<close>

datatype draw_command =
    ApplyPen vtkPen
  | ApplyBrush vtkBrush
  | DrawPolygon "point list"
  | DrawLine "point list"
  | DrawRect real real real real
  | DrawPoints "point list"

type_synonym vtkContext2D = "draw_command list"

datatype vtkAxis = Axis nat

text \<open>
  The fields of the plot that the member functions of this file read or write.
  \<open>Input\<close> and \<open>ArrayToProcess\<close> are the table and the column names, by slot,
  held by \<open>this->Data\<close>; \<open>Points\<close> is the point cache of the scatter-plot base class.
\<close>

record vtkPlotBag =
  Input :: "vtkTable option"
  ArrayToProcess :: "(nat \<times> string) list"
  UseIndexForXSeries :: bool
  Labels :: "string list option"
  AutoLabels :: "string list option"
  IndexedLabels :: "string list option"
  Points :: "point list option"
  MedianPoints :: "point list"
  Q3Points :: "point list"
  Visible :: bool
  BagVisible :: bool
  Brush :: vtkBrush
  Pen :: vtkPen
  LinePen :: vtkPen
  XAxis :: "vtkAxis option"
  YAxis :: "vtkAxis option"
  TooltipLabelFormat :: string
  TooltipDefaultLabelFormat :: string

text \<open>
  Modelled from the spec: \<open>GetInputAbstractArrayToProcess(idx, table)\<close> of the mapper
  is not under src/. It resolves the column name bound to slot \<open>idx\<close> on the table and
  gives null when there is no table, no binding or no such column.
\<close>

definition GetInputAbstractArrayToProcess ::
    "vtkPlotBag \<Rightarrow> nat \<Rightarrow> vtkTable option \<Rightarrow> (string \<times> vtkAbstractArray) option" where
  "GetInputAbstractArrayToProcess this idx input =
     (case input of
        None \<Rightarrow> None
      | Some table \<Rightarrow>
          (case map_of (ArrayToProcess this) idx of
             None \<Rightarrow> None
           | Some nm \<Rightarrow>
               (case GetColumnByName table nm of
                  None \<Rightarrow> None
                | Some arr \<Rightarrow> Some (nm, arr))))"

subsection \<open>Collaborators outside this file\<close>

text \<open>
  The class \<open>DensityVal\<close>; its field \<open>Id\<close> is written \<open>Id_row\<close> here, \<open>Id\<close> being the
  identity relation of HOL.
\<close>

record DensityVal =
  Density :: real
  Id_row :: nat

text \<open>
  What the file calls but does not define: the base class's cache rebuild and paint,
  \<open>std::sort\<close> (whose order among equal keys is not fixed), the hull extraction of the
  projected-hull point set (\<open>GetSizeCCWHullZ\<close> is the length of what \<open>GetCCWHullZ\<close>
  writes), the contents of a freshly sized point buffer, the plot's number formatting
  and the string conversion of a variant. With them stand the two operations of double
  arithmetic that the rebuild uses: \<open>double_add a b\<close> is the double that \<open>a + b\<close> gives
  and \<open>double_mul c a\<close> the double that \<open>c * a\<close> gives for a literal \<open>c\<close>.
\<close>

record externals =
  Superclass_UpdateCache :: "vtkPlotBag \<Rightarrow> bool \<times> vtkPlotBag"
  Superclass_Paint :: "vtkPlotBag \<Rightarrow> vtkContext2D \<Rightarrow> bool \<times> vtkPlotBag \<times> vtkContext2D"
  std_sort :: "DensityVal list \<Rightarrow> DensityVal list"
  GetCCWHullZ :: "point list \<Rightarrow> point list"
  fresh_contents :: point
  GetNumber :: "real \<Rightarrow> vtkAxis option \<Rightarrow> string"
  VariantToString :: "real \<Rightarrow> string"
  double_add :: "real \<Rightarrow> real \<Rightarrow> real"
  double_mul :: "real \<Rightarrow> real \<Rightarrow> real"

subsection \<open>UpdateCache\<close>

text \<open>\<open>DensityVal::operator<\<close>: a value is smaller when its density is larger.\<close>

definition DensityVal_less :: "DensityVal \<Rightarrow> DensityVal \<Rightarrow> bool" where
  "DensityVal_less a b = (Density a > Density b)"

text \<open>The loop that pairs every tuple of the density array with the running counter.\<close>

fun emplace_back_all :: "real list \<Rightarrow> nat \<Rightarrow> DensityVal list" where
  "emplace_back_all [] counter = []"
| "emplace_back_all (t # tuples) counter =
     \<lparr>Density = t, Id_row = counter\<rparr> # emplace_back_all tuples (counter + 1)"

text \<open>The loop that adds up the density column in row order.\<close>

definition densitySum :: "externals \<Rightarrow> real list \<Rightarrow> real" where
  "densitySum ext density = foldl (\<lambda>s d. double_add ext s d) 0 density"

text \<open>
  The collecting loop over the sorted values. \<open>GetPoint\<close> is read before the tests,
  the median test comes before the q3 test, and a failed q3 test leaves the loop.
\<close>

fun collect ::
    "externals \<Rightarrow> point list \<Rightarrow> real \<Rightarrow> real \<Rightarrow> real \<Rightarrow> DensityVal list
      \<Rightarrow> point list \<Rightarrow> point list \<Rightarrow> undefined_behaviour + (point list \<times> point list)" where
  "collect ext points medianDensity q3Density cum [] medianPoints q3Points =
     Inr (medianPoints, q3Points)"
| "collect ext points medianDensity q3Density cum (v # ids) medianPoints q3Points =
     (if Id_row v < length points then
        (let x = points ! Id_row v;
             cum' = double_add ext cum (Density v);
             medianPoints' = (if cum' < medianDensity then medianPoints @ [x] else medianPoints)
         in if cum' < q3Density
            then collect ext points medianDensity q3Density cum' ids medianPoints'
                   (q3Points @ [x])
            else Inr (medianPoints', q3Points))
      else Inl OutOfBoundsRead)"

definition fill_hull_builders ::
    "externals \<Rightarrow> point list \<Rightarrow> real list \<Rightarrow> undefined_behaviour + (point list \<times> point list)" where
  "fill_hull_builders ext points density =
     (let ids = std_sort ext (emplace_back_all density 0);
          total = densitySum ext density
      in collect ext points (double_mul ext 0.5 total) (double_mul ext 0.99 total) 0 ids [] [])"

text \<open>
  Storing one bag: more than two points give the hull, written into a buffer of
  \<open>size + 1\<close> points whose last point is then overwritten with the first; one or two
  points are copied one by one; no point leaves the polygon as \<open>Reset\<close> made it.
\<close>

definition store_bag :: "externals \<Rightarrow> point list \<Rightarrow> point list" where
  "store_bag ext hullPoints =
     (let nb = length hullPoints in
      if nb > 2 then
        (let ccw = GetCCWHullZ ext hullPoints;
             sz = length ccw;
             buffer = ccw @ [fresh_contents ext]
         in buffer[sz := buffer ! 0])
      else if nb > 0 then map (\<lambda>j. hullPoints ! j) [0..<nb]
      else [])"

definition UpdateCache ::
    "externals \<Rightarrow> vtkPlotBag \<Rightarrow> undefined_behaviour + (bool \<times> vtkPlotBag)" where
  "UpdateCache ext this =
     (case Superclass_UpdateCache ext this of
        (False, this1) \<Rightarrow> Inr (False, this1)
      | (True, this1) \<Rightarrow>
          (let this2 = this1\<lparr>MedianPoints := [], Q3Points := []\<rparr> in
           case Points this2 of
             None \<Rightarrow> Inr (False, this2)
           | Some points \<Rightarrow>
               (case Input this2 of
                  None \<Rightarrow> Inl NullDereference
                | Some table \<Rightarrow>
                    (case SafeDownCast (GetColumn table 2) of
                       None \<Rightarrow> Inr (False, this2)
                     | Some density \<Rightarrow>
                         (case fill_hull_builders ext points density of
                            Inl ub \<Rightarrow> Inl ub
                          | Inr (medianPoints, q3Points) \<Rightarrow>
                              Inr (True, this2\<lparr>MedianPoints := store_bag ext medianPoints,
                                               Q3Points := store_bag ext q3Points\<rparr>))))))"

subsection \<open>Paint and PaintLegend\<close>

text \<open>A bag is drawn as a polygon with more than two points, as a line with exactly two.\<close>

definition draw_bag :: "point list \<Rightarrow> draw_command list" where
  "draw_bag pts =
     (if length pts > 2 then [DrawPolygon pts]
      else if length pts = 2 then [DrawLine pts]
      else [])"

definition Paint ::
    "externals \<Rightarrow> vtkPlotBag \<Rightarrow> vtkContext2D \<Rightarrow> bool \<times> vtkPlotBag \<times> vtkContext2D" where
  "Paint ext this painter =
     (if \<not> Visible this \<or> Points this = None \<or> Input this = None then (False, this, painter)
      else
        (let (this', painter') =
           (if BagVisible this then
              (let (r, g, b, a) = GetColor (Brush this);
                   brush1 = SetColor (r div 2) (g div 2) (b div 2) (SetOpacity 255 (Brush this));
                   painter1 = painter @ [ApplyPen (LinePen this), ApplyBrush brush1]
                                @ draw_bag (Q3Points this);
                   brush2 = SetOpacity 128 (SetColor r g b brush1);
                   painter2 = painter1 @ [ApplyBrush brush2] @ draw_bag (MedianPoints this)
               in (this\<lparr>Brush := brush2\<rparr>, painter2))
            else (this, painter))
         in Superclass_Paint ext this' (painter' @ [ApplyPen (Pen this')])))"

definition PaintLegend ::
    "vtkPlotBag \<Rightarrow> vtkContext2D \<Rightarrow> real \<times> real \<times> real \<times> real
      \<Rightarrow> bool \<times> vtkPlotBag \<times> vtkContext2D" where
  "PaintLegend this painter rect =
     (let (x, y, w, h) = rect;
          painter0 = painter @ [ApplyPen (LinePen this)];
          (r, g, b, a) = GetColor (Brush this);
          opac = GetOpacity (Brush this);
          brush1 = SetColor (r div 2) (g div 2) (b div 2) (SetOpacity 255 (Brush this));
          painter1 = painter0 @ [ApplyBrush brush1, DrawRect x y w h];
          brush2 = SetOpacity 128 (SetColor r g b brush1);
          painter2 = painter1 @ [ApplyBrush brush2, DrawRect (x + w / 2) y (w / 2) h];
          brush3 = SetOpacity opac brush2
      in (True, this\<lparr>Brush := brush3\<rparr>, painter2))"

subsection \<open>Labels and the tooltip\<close>



text \<open>What \<open>operator<<\<close> of a string stream writes for an integer.\<close>

fun decimal :: "nat \<Rightarrow> string" where
  "decimal n =
     (if n < 10 then [''0123456789'' ! n]
      else decimal (n div 10) @ [''0123456789'' ! (n mod 10)])"

declare decimal.simps [simp del]

definition stream_int :: "int \<Rightarrow> string" where
  "stream_int i = (if i < 0 then CHR ''-'' # decimal (nat (- i)) else decimal (nat i))"





subsection \<open>SetInputData\<close>

text \<open>
  The four overloads. Those that go through a pointer they do not check give
  \<open>NullDereference\<close> where the pointer is null; the one that validates also returns
  what it wrote with \<open>vtkErrorMacro\<close>.
\<close>

definition SetInputData_table :: "vtkPlotBag \<Rightarrow> vtkTable option \<Rightarrow> vtkPlotBag" where
  "SetInputData_table this table = this\<lparr>Input := table\<rparr>"

definition SetInputData_names ::
    "vtkPlotBag \<Rightarrow> vtkTable option \<Rightarrow> string \<Rightarrow> string \<Rightarrow> string \<Rightarrow> vtkPlotBag" where
  "SetInputData_names this table xColumn yColumn densityColumn =
     this\<lparr>Input := table,
          ArrayToProcess :=
            AList.update 2 densityColumn
              (AList.update 1 yColumn (AList.update 0 xColumn (ArrayToProcess this))),
          AutoLabels := None\<rparr>"

definition SetInputData_y_density ::
    "vtkPlotBag \<Rightarrow> vtkTable option \<Rightarrow> string \<Rightarrow> string
      \<Rightarrow> undefined_behaviour + (string list \<times> vtkPlotBag)" where
  "SetInputData_y_density this table yColumn densityColumn =
     (case table of
        None \<Rightarrow> Inl NullDereference
      | Some t \<Rightarrow>
          (case GetColumnByName t densityColumn of
             None \<Rightarrow> Inl NullDereference
           | Some d \<Rightarrow>
               (case GetColumnByName t yColumn of
                  None \<Rightarrow> Inl NullDereference
                | Some y \<Rightarrow>
                    (if GetNumberOfTuples d \<noteq> GetNumberOfTuples y
                     then Inr ([''Input table not correctly initialized!''], this)
                     else Inr ([], (SetInputData_names this table yColumn yColumn densityColumn)
                                     \<lparr>UseIndexForXSeries := True\<rparr>)))))"

definition SetInputData_indices ::
    "vtkPlotBag \<Rightarrow> vtkTable option \<Rightarrow> int \<Rightarrow> int \<Rightarrow> int \<Rightarrow> undefined_behaviour + vtkPlotBag" where
  "SetInputData_indices this table xColumn yColumn densityColumn =
     (case table of
        None \<Rightarrow> Inl NullDereference
      | Some t \<Rightarrow>
          (case (GetColumnName t xColumn, GetColumnName t yColumn, GetColumnName t densityColumn) of
             (Some xn, Some yn, Some dn) \<Rightarrow> Inr (SetInputData_names this table xn yn dn)
           | _ \<Rightarrow> Inl NullDereference))"

subsection \<open>The cache rebuild as the specification words it\<close>

text \<open>
  Each row's density paired with its row index; an arrangement of the pairs in descending
  density order; the mass accumulated over that order; the rows collected while the
  accumulated mass is below a threshold.
\<close>

definition spec_pairs :: "real list \<Rightarrow> DensityVal list" where
  "spec_pairs density =
     map (\<lambda>(d, i). \<lparr>Density = d, Id_row = i\<rparr>) (zip density [0..<length density])"

definition descending :: "DensityVal list \<Rightarrow> bool" where
  "descending ids = sorted_wrt (\<lambda>a b. Density a \<ge> Density b) ids"

definition cumulative_mass :: "DensityVal list \<Rightarrow> real list" where
  "cumulative_mass ids = map (\<lambda>k. sum_list (map Density (take (Suc k) ids))) [0..<length ids]"

definition spec_collected :: "real \<Rightarrow> DensityVal list \<Rightarrow> nat list" where
  "spec_collected threshold ids =
     map (\<lambda>(mass, v). Id_row v)
       (takeWhile (\<lambda>(mass, v). mass < threshold) (zip (cumulative_mass ids) ids))"

text \<open>
  What the C++ standard promises of \<open>std::sort\<close>: the result is a rearrangement of the
  input in which no later element is smaller (by \<open>operator<\<close>) than an earlier one.
\<close>

definition std_sort_spec :: "(DensityVal list \<Rightarrow> DensityVal list) \<Rightarrow> bool" where
  "std_sort_spec srt =
     (\<forall>xs. mset (srt xs) = mset xs \<and> sorted_wrt (\<lambda>a b. \<not> DensityVal_less b a) (srt xs))"

text \<open>How a stored polygon relates to the points its hull builder was fed.\<close>

definition stored_as :: "externals \<Rightarrow> point list \<Rightarrow> point list \<Rightarrow> bool" where
  "stored_as ext fed polygon =
     ((length fed = 0 \<longrightarrow> polygon = []) \<and>
      (length fed = 1 \<or> length fed = 2 \<longrightarrow> polygon = fed) \<and>
      (length fed > 2 \<longrightarrow>
         polygon \<noteq> [] \<and> butlast polygon = GetCCWHullZ ext fed \<and> hd polygon = last polygon))"

text \<open>
  What rounding to nearest gives the sums and thresholds of the rebuild: adding a
  number that is not negative to zero or to a sum does not make it smaller, and of a
  total that is not negative the half is not above the 99 percent.
\<close>

definition never_below :: "(real \<Rightarrow> real \<Rightarrow> real) \<Rightarrow> real \<Rightarrow> bool" where
  "never_below add c = (\<forall>d. 0 \<le> d \<longrightarrow> c \<le> add c d)"

definition rounding_monotone :: "externals \<Rightarrow> bool" where
  "rounding_monotone ext =
     (never_below (double_add ext) 0 \<and>
      (\<forall>a b. never_below (double_add ext) (double_add ext a b)) \<and>
      (\<forall>total. 0 \<le> total \<longrightarrow> double_mul ext 0.5 total \<le> double_mul ext 0.99 total))"


text \<open>Auxiliary functions of the proofs: the collecting loop on row indices alone.\<close>

fun collect_ids ::
    "(real \<Rightarrow> real \<Rightarrow> real) \<Rightarrow> real \<Rightarrow> real \<Rightarrow> real \<Rightarrow> DensityVal list
      \<Rightarrow> nat list \<times> nat list" where
  "collect_ids add m q c [] = ([], [])"
| "collect_ids add m q c (v # ids) =
     (let c' = add c (Density v); me = (if c' < m then [Id_row v] else []) in
      if c' < q
      then (case collect_ids add m q c' ids of (ms, qs) \<Rightarrow> (me @ ms, Id_row v # qs))
      else (me, []))"

fun take_below :: "(real \<Rightarrow> real \<Rightarrow> real) \<Rightarrow> real \<Rightarrow> real \<Rightarrow> DensityVal list \<Rightarrow> nat list" where
  "take_below add thr c [] = []"
| "take_below add thr c (v # ids) =
     (if add c (Density v) < thr then Id_row v # take_below add thr (add c (Density v)) ids
      else [])"

subsection \<open>Reference collaborators\<close>

text \<open>
  Modelled from the spec: the sort and the convex-hull utility (ordered point insertion,
  hull extraction, size query) are not under src/. These instances are what the model is
  run with on concrete inputs; the theorems hold for every collaborator that meets the
  hypotheses they state. The arithmetic is exact, which is what double arithmetic gives
  where the exact result is a double. The sort is a stable insertion sort on descending
  density. The
  hull is a monotone chain: the distinct points in lexicographic order, the lower chain
  left to right, then the upper chain right to left, keeping strict left turns only,
  which lists the hull counter-clockwise from its lowest leftmost vertex.
\<close>

definition stable_sort :: "DensityVal list \<Rightarrow> DensityVal list" where
  "stable_sort xs = sort_key (\<lambda>v. - Density v) xs"

definition cross :: "point \<Rightarrow> point \<Rightarrow> point \<Rightarrow> real" where
  "cross c a b = (fst a - fst c) * (snd b - snd c) - (snd a - snd c) * (fst b - fst c)"

fun push_vertex :: "point list \<Rightarrow> point \<Rightarrow> point list" where
  "push_vertex (b # a # st) p =
     (if cross a b p \<le> 0 then push_vertex (a # st) p else p # b # a # st)"
| "push_vertex st p = p # st"

definition chain :: "point list \<Rightarrow> point list" where
  "chain ps = rev (foldl push_vertex [] ps)"

definition lex_le :: "point \<Rightarrow> point \<Rightarrow> bool" where
  "lex_le p q = (fst p < fst q \<or> (fst p = fst q \<and> snd p \<le> snd q))"

fun insert_lex :: "point \<Rightarrow> point list \<Rightarrow> point list" where
  "insert_lex p [] = [p]"
| "insert_lex p (q # qs) = (if lex_le p q then p # q # qs else q # insert_lex p qs)"

definition sort_lex :: "point list \<Rightarrow> point list" where
  "sort_lex ps = foldr insert_lex ps []"

definition monotone_chain :: "point list \<Rightarrow> point list" where
  "monotone_chain ps =
     (let s = remdups (sort_lex ps) in
      if length s < 3 then s
      else remdups (butlast (chain s) @ butlast (chain (rev s))))"

text \<open>
  Modelled from the spec: the inherited scatter-plot base class is not under src/. Its
  cache rebuild is taken to pair the bound x and y columns row by row (the row index
  standing for x when index-based X is on) and to fail without a table, without the
  columns or when their lengths differ; its paint is taken to draw the cached points and
  to leave the plot as it is.
\<close>

definition PlotPoints_UpdateCache :: "vtkPlotBag \<Rightarrow> bool \<times> vtkPlotBag" where
  "PlotPoints_UpdateCache this =
     (case SafeDownCast (map_option snd (GetInputAbstractArrayToProcess this 1 (Input this))) of
        None \<Rightarrow> (False, this)
      | Some ys \<Rightarrow>
          (if UseIndexForXSeries this
           then (True, this\<lparr>Points := Some (zip (map real [0..<length ys]) ys)\<rparr>)
           else
             (case SafeDownCast (map_option snd (GetInputAbstractArrayToProcess this 0 (Input this))) of
                None \<Rightarrow> (False, this)
              | Some xs \<Rightarrow>
                  (if length xs \<noteq> length ys then (False, this)
                   else (True, this\<lparr>Points := Some (zip xs ys)\<rparr>)))))"

definition PlotPoints_Paint ::
    "vtkPlotBag \<Rightarrow> vtkContext2D \<Rightarrow> bool \<times> vtkPlotBag \<times> vtkContext2D" where
  "PlotPoints_Paint this painter =
     (case Points this of
        None \<Rightarrow> (False, this, painter)
      | Some pts \<Rightarrow> (True, this, painter @ [DrawPoints pts]))"

text \<open>
  Modelled from the spec: what the plot's numeric formatting prints is not under src/ and
  the spec does not say it. The instance, taken for the numeric formatting and for the
  string conversion of a variant alike, prints the whole part of a number in decimal;
  the tables here hold whole numbers only.
\<close>

definition whole_part :: "real \<Rightarrow> string" where
  "whole_part v = stream_int \<lfloor>v\<rfloor>"

definition reference :: externals where
  "reference =
     \<lparr>Superclass_UpdateCache = PlotPoints_UpdateCache,
      Superclass_Paint = PlotPoints_Paint,
      std_sort = stable_sort,
      GetCCWHullZ = monotone_chain,
      fresh_contents = (0, 0),
      GetNumber = (\<lambda>v axis. whole_part v),
      VariantToString = whole_part,
      double_add = (\<lambda>a b. a + b),
      double_mul = (\<lambda>c a. c * a)\<rparr>"

text \<open>The plot as the constructor leaves it, and a table of six rows.\<close>

definition constructed :: vtkPlotBag where
  "constructed =
     \<lparr>Input = None,
      ArrayToProcess = [],
      UseIndexForXSeries = False,
      Labels = None,
      AutoLabels = None,
      IndexedLabels = None,
      Points = None,
      MedianPoints = [],
      Q3Points = [],
      Visible = True,
      BagVisible = True,
      Brush = \<lparr>red = 255, green = 0, blue = 0, opacity = 255\<rparr>,
      Pen = \<lparr>pen_color = (0, 0, 0), pen_width = 5\<rparr>,
      LinePen = \<lparr>pen_color = (0, 0, 0), pen_width = 1\<rparr>,
      XAxis = None,
      YAxis = None,
      TooltipLabelFormat = [],
      TooltipDefaultLabelFormat = ''%C, %l (%x, %y): %z''\<rparr>"

definition six_rows :: vtkTable where
  "six_rows =
     [(''X'', vtkDataArray [2, 3, 0, 4, 4, 0]),
      (''Y'', vtkDataArray [2, 2, 0, 0, 4, 4]),
      (''Density'', vtkDataArray [2, 2, 2, 1, 1, 1])]"

definition six_rows_plot :: vtkPlotBag where
  "six_rows_plot = SetInputData_names constructed (Some six_rows) ''X'' ''Y'' ''Density''"

definition six_rows_rebuilt :: vtkPlotBag where
  "six_rows_rebuilt =
     six_rows_plot
       \<lparr>Points := Some [(2, 2), (3, 2), (0, 0), (4, 0), (4, 4), (0, 4)],
        MedianPoints := [(2, 2), (3, 2)],
        Q3Points := [(0, 0), (4, 0), (4, 4), (0, 0)]\<rparr>"

text \<open>
  A table that holds a y column and a density column only, and the plot bound to it
  through the overload made for such tables; a table whose density column is one row
  short.
\<close>

definition two_columns :: vtkTable where
  "two_columns =
     [(''Y'', vtkDataArray [5, 7, 6]),
      (''Density'', vtkDataArray [2, 1, 1])]"

definition two_columns_plot :: vtkPlotBag where
  "two_columns_plot =
     (SetInputData_names constructed (Some two_columns) ''Y'' ''Y'' ''Density'')
       \<lparr>UseIndexForXSeries := True\<rparr>"

definition short_density :: vtkTable where
  "short_density =
     [(''Y'', vtkDataArray [5, 7, 6]),
      (''Density'', vtkDataArray [2, 1])]"

text \<open>
  A table whose density column is its fourth column, after a column of other numbers,
  and the plot bound to its x, y and density columns by name.
\<close>

definition four_columns :: vtkTable where
  "four_columns =
     [(''X'', vtkDataArray [0, 1, 2]),
      (''Y'', vtkDataArray [0, 1, 0]),
      (''Other'', vtkDataArray [25, 30, 45]),
      (''Density'', vtkDataArray [45, 30, 25])]"

definition four_columns_plot :: vtkPlotBag where
  "four_columns_plot =
     SetInputData_names constructed (Some four_columns) ''X'' ''Y'' ''Density''"


text \<open>The rebuilt six-row plot with a brush that is nearly transparent.\<close>

definition faint_plot :: vtkPlotBag where
  "faint_plot =
     six_rows_rebuilt\<lparr>Brush := \<lparr>red = 200, green = 100, blue = 51, opacity = 40\<rparr>\<rparr>"

section \<open>Properties\<close>

subsection \<open>What the collecting loop gathers\<close>

lemma collect_collect_ids:
  "\<forall>v\<in>set ids. Id_row v < length points \<Longrightarrow>
   collect ext points m q c ids mp qp =
     Inr (mp @ map (\<lambda>i. points ! i) (fst (collect_ids (double_add ext) m q c ids)),
          qp @ map (\<lambda>i. points ! i) (snd (collect_ids (double_add ext) m q c ids)))"
proof (induction ids arbitrary: c mp qp)
  case Nil
  then show ?case by simp
next
  case (Cons v ids)
  then show ?case by (simp add: Let_def case_prod_beta)
qed

lemma snd_collect_ids: "snd (collect_ids add m q c ids) = take_below add q c ids"
  by (induction ids arbitrary: c) (simp_all add: Let_def case_prod_beta)

lemma fst_collect_ids_above:
  assumes "\<forall>a b. never_below add (add a b)" and "\<forall>v\<in>set ids. 0 \<le> Density v"
      and "never_below add c" and "m \<le> c"
  shows "fst (collect_ids add m q c ids) = []"
  using assms(2-4)
proof (induction ids arbitrary: c)
  case Nil
  then show ?case by simp
next
  case (Cons v ids)
  let ?c = "add c (Density v)"
  from Cons.prems have "c \<le> ?c" by (simp add: never_below_def)
  with Cons.prems have above: "m \<le> ?c" by simp
  from assms(1) have "never_below add ?c" by blast
  with Cons.IH [of ?c] Cons.prems(1) above
  have "fst (collect_ids add m q ?c ids) = []" by simp
  with above show ?case by (simp add: Let_def case_prod_beta)
qed

lemma fst_collect_ids:
  assumes "\<forall>a b. never_below add (add a b)" and "\<forall>v\<in>set ids. 0 \<le> Density v"
      and "m \<le> q"
  shows "fst (collect_ids add m q c ids) = take_below add m c ids"
  using assms(2)
proof (induction ids arbitrary: c)
  case Nil
  then show ?case by simp
next
  case (Cons v ids)
  let ?c = "add c (Density v)"
  from Cons.prems have rest: "\<forall>v\<in>set ids. 0 \<le> Density v" by simp
  from assms(1) have nb: "never_below add ?c" by blast
  show ?case
  proof (cases "?c < q")
    case True
    show ?thesis
    proof (cases "?c < m")
      case True
      with \<open>?c < q\<close> Cons.IH [OF rest, of ?c] show ?thesis
        by (simp add: Let_def case_prod_beta)
    next
      case False
      then have "fst (collect_ids add m q ?c ids) = []"
        using fst_collect_ids_above [OF assms(1) rest nb] by simp
      with False \<open>?c < q\<close> show ?thesis by (simp add: Let_def case_prod_beta)
    qed
  next
    case False
    with assms(3) show ?thesis by (simp add: Let_def)
  qed
qed

lemma prefix_take_below:
  "m \<le> q \<Longrightarrow> prefix (take_below add m c ids) (take_below add q c ids)"
  by (induction ids arbitrary: c) simp_all

lemma Density_emplace_back_all: "map Density (emplace_back_all density k) = density"
  by (induction density arbitrary: k) simp_all

lemma Id_row_emplace_back_all:
  "v \<in> set (emplace_back_all density k) \<Longrightarrow> Id_row v < k + length density"
  by (induction density arbitrary: k) fastforce+

lemma foldl_add_nonneg:
  assumes "\<forall>a b. never_below add (add a b)" and "\<forall>d\<in>set ds. 0 \<le> d"
      and "never_below add c" and "0 \<le> c"
  shows "0 \<le> foldl (\<lambda>s d. add s d) c ds"
  using assms(2-4)
proof (induction ds arbitrary: c)
  case Nil
  then show ?case by simp
next
  case (Cons d ds)
  from Cons.prems have "c \<le> add c d" by (simp add: never_below_def)
  with Cons.prems have "0 \<le> add c d" by simp
  moreover from assms(1) have "never_below add (add c d)" by blast
  ultimately show ?case using Cons.IH [of "add c d"] Cons.prems(1) by simp
qed

lemma densitySum_nonneg:
  "rounding_monotone ext \<Longrightarrow> \<forall>d\<in>set density. 0 \<le> d \<Longrightarrow> 0 \<le> densitySum ext density"
  unfolding densitySum_def rounding_monotone_def
  by (intro foldl_add_nonneg) simp_all

lemma UpdateCache_filled:
  assumes "Superclass_UpdateCache ext this = (True, this1)"
      and "Points this1 = Some points" and "Input this1 = Some table"
      and "SafeDownCast (GetColumn table 2) = Some density"
      and "fill_hull_builders ext points density = Inr (medianPoints, q3Points)"
  shows "UpdateCache ext this =
           Inr (True, this1\<lparr>MedianPoints := store_bag ext medianPoints,
                            Q3Points := store_bag ext q3Points\<rparr>)"
  using assms by (simp add: UpdateCache_def)

lemma std_sort_spec_stable_sort: "std_sort_spec stable_sort"
proof -
  have "sorted_wrt (\<lambda>a b. \<not> DensityVal_less b a) (stable_sort xs)" for xs
  proof -
    have "sorted (map (\<lambda>v. - Density v) (sort_key (\<lambda>v. - Density v) xs))"
      by (rule sorted_sort_key)
    then show ?thesis
      by (simp add: sorted_map stable_sort_def DensityVal_less_def not_less)
  qed
  then show ?thesis by (simp add: std_sort_spec_def stable_sort_def)
qed

lemma rounding_monotone_reference: "rounding_monotone reference"
  by (simp add: rounding_monotone_def never_below_def reference_def)

subsection \<open>Which column the rows are ranked by\<close>

text \<open>
  C1. The rebuild pairs the row indices with column 2 of the table, not with the column
  bound as density (the defect of C4), so on a table whose density is another column it
  does not collect what the claim says. With x, y and density bound by name on the table
  of four columns, the density is 45, 30, 25 and the claim's sets are row 0 for the
  median and rows 0 and 1 for q3; the rebuild ranks the rows by the third column, 25, 30,
  45, feeds the builders row 2 and rows 2 and 1, and stores their points.
\<close>

theorem UpdateCache_collects_by_column_2:
  "SafeDownCast (map_option snd
     (GetInputAbstractArrayToProcess four_columns_plot 2 (Input four_columns_plot))) =
     Some [45, 30, 25] \<and>
   descending (spec_pairs [45, 30, 25]) \<and>
   spec_collected (0.5 * sum_list [45, 30, 25]) (spec_pairs [45, 30, 25]) = [0] \<and>
   spec_collected (0.99 * sum_list [45, 30, 25]) (spec_pairs [45, 30, 25]) = [0, 1] \<and>
   SafeDownCast (GetColumn four_columns 2) = Some [25, 30, 45] \<and>
   Superclass_UpdateCache reference four_columns_plot =
     (True, four_columns_plot\<lparr>Points := Some [(0, 0), (1, 1), (2, 0)]\<rparr>) \<and>
   fill_hull_builders reference [(0, 0), (1, 1), (2, 0)] [25, 30, 45] =
     Inr ([(2, 0)], [(2, 0), (1, 1)]) \<and>
   UpdateCache reference four_columns_plot =
     Inr (True, four_columns_plot
            \<lparr>Points := Some [(0, 0), (1, 1), (2, 0)],
             MedianPoints := [(2, 0)],
             Q3Points := [(2, 0), (1, 1)]\<rparr>)"
  by code_simp

subsection \<open>The median bag inside the q3 bag\<close>

lemma fill_hull_builders_prefix:
  assumes "std_sort_spec (std_sort ext)" and "\<forall>d\<in>set density. 0 \<le> d"
      and "length density \<le> length points" and "rounding_monotone ext"
  shows "\<exists>medianPoints q3Points.
           fill_hull_builders ext points density = Inr (medianPoints, q3Points) \<and>
           prefix medianPoints q3Points"
proof -
  define ids where "ids = std_sort ext (emplace_back_all density 0)"
  define total where "total = densitySum ext density"
  define m where "m = double_mul ext 0.5 total"
  define q where "q = double_mul ext 0.99 total"
  from assms(1) have ms: "mset ids = mset (emplace_back_all density 0)"
    by (simp add: ids_def std_sort_spec_def)
  then have sets: "set ids = set (emplace_back_all density 0)" by (rule mset_eq_setD)
  with assms(3) have inr: "\<forall>v\<in>set ids. Id_row v < length points"
    using Id_row_emplace_back_all [of _ density 0] by fastforce
  have "Density ` set ids = set density"
    using sets Density_emplace_back_all [of density 0] by (metis set_map)
  with assms(2) have nonneg: "\<forall>v\<in>set ids. 0 \<le> Density v" by blast
  from assms(4) have closed: "\<forall>a b. never_below (double_add ext) (double_add ext a b)"
    by (simp add: rounding_monotone_def)
  from assms(2,4) have "0 \<le> total"
    unfolding total_def by (intro densitySum_nonneg)
  with assms(4) have mq: "m \<le> q" by (simp add: m_def q_def rounding_monotone_def)
  have fill: "fill_hull_builders ext points density =
          Inr (map (\<lambda>i. points ! i) (take_below (double_add ext) m 0 ids),
               map (\<lambda>i. points ! i) (take_below (double_add ext) q 0 ids))"
    using collect_collect_ids [OF inr, of ext m q 0 "[]" "[]"]
      fst_collect_ids [OF closed nonneg mq, of 0]
      snd_collect_ids [of "double_add ext" m q 0 ids]
    by (simp add: fill_hull_builders_def ids_def total_def m_def q_def Let_def)
  have "prefix (map (\<lambda>i. points ! i) (take_below (double_add ext) m 0 ids))
               (map (\<lambda>i. points ! i) (take_below (double_add ext) q 0 ids))"
    using prefix_take_below [OF mq] by (rule map_mono_prefix)
  with fill show ?thesis by blast
qed

text \<open>
  C3. When no density is negative, the base class has rebuilt its cache, column 2 of the
  table is a numeric array with no more rows than there are points, and the sums and
  thresholds round as rounding to nearest does, the points fed to the median hull
  builder are a prefix of the points fed to the q3 hull builder, so every point fed to
  the former is also fed to the latter.
\<close>

theorem UpdateCache_median_prefix_of_q3:
  assumes "std_sort_spec (std_sort ext)"
      and "Superclass_UpdateCache ext this = (True, this1)"
      and "Points this1 = Some points" and "Input this1 = Some table"
      and "SafeDownCast (GetColumn table 2) = Some density"
      and "length density \<le> length points"
      and "\<forall>d\<in>set density. 0 \<le> d"
      and "rounding_monotone ext"
  shows "\<exists>medianPoints q3Points.
           fill_hull_builders ext points density = Inr (medianPoints, q3Points) \<and>
           UpdateCache ext this =
             Inr (True, this1\<lparr>MedianPoints := store_bag ext medianPoints,
                              Q3Points := store_bag ext q3Points\<rparr>) \<and>
           prefix medianPoints q3Points \<and> set medianPoints \<subseteq> set q3Points"
proof -
  from fill_hull_builders_prefix [OF assms(1) assms(7) assms(6) assms(8)]
  obtain medianPoints q3Points
    where fill: "fill_hull_builders ext points density = Inr (medianPoints, q3Points)"
      and pre: "prefix medianPoints q3Points"
    by blast
  from pre have "set medianPoints \<subseteq> set q3Points" by (rule set_mono_prefix)
  with UpdateCache_filled [OF assms(2-5) fill] fill pre show ?thesis by blast
qed

theorem UpdateCache_median_prefix_of_q3_witness:
  "std_sort_spec (std_sort reference) \<and>
   rounding_monotone reference \<and>
   Superclass_UpdateCache reference six_rows_plot =
     (True, six_rows_plot\<lparr>Points := Some [(2, 2), (3, 2), (0, 0), (4, 0), (4, 4), (0, 4)]\<rparr>) \<and>
   SafeDownCast (GetColumn six_rows 2) = Some [2, 2, 2, 1, 1, 1] \<and>
   list_all (\<lambda>d. 0 \<le> d) [2, 2, 2, 1, 1, 1 :: real] \<and>
   fill_hull_builders reference [(2, 2), (3, 2), (0, 0), (4, 0), (4, 4), (0, 4)] [2, 2, 2, 1, 1, 1] =
     Inr ([(2, 2), (3, 2)], [(2, 2), (3, 2), (0, 0), (4, 0), (4, 4)]) \<and>
   prefix [(2, 2), (3, 2)] [(2, 2), (3, 2), (0, 0), (4, 0), (4, 4 :: real)]"
proof -
  let ?points = "[(2, 2), (3, 2), (0, 0), (4, 0), (4, 4), (0, 4)] :: point list"
  let ?this1 = "six_rows_plot\<lparr>Points := Some ?points\<rparr>"
  have h1: "std_sort_spec (std_sort reference)"
    by (simp add: reference_def std_sort_spec_stable_sort)
  have h2: "Superclass_UpdateCache reference six_rows_plot = (True, ?this1)"
    by code_simp
  have h3: "Points ?this1 = Some ?points" by simp
  have h4: "Input ?this1 = Some six_rows" by code_simp
  have h5: "SafeDownCast (GetColumn six_rows 2) = Some [2, 2, 2, 1, 1, 1]" by code_simp
  have h6: "length [2, 2, 2, 1, 1, 1 :: real] \<le> length ?points" by simp
  have h7: "\<forall>d\<in>set [2, 2, 2, 1, 1, 1 :: real]. 0 \<le> d" by simp
  have h8: "rounding_monotone reference" by (rule rounding_monotone_reference)
  have fill: "fill_hull_builders reference ?points [2, 2, 2, 1, 1, 1] =
          Inr ([(2, 2), (3, 2)], [(2, 2), (3, 2), (0, 0), (4, 0), (4, 4)])"
    by code_simp
  from UpdateCache_median_prefix_of_q3 [OF h1 h2 h3 h4 h5 h6 h7 h8] fill
  have "prefix [(2, 2), (3, 2)] [(2, 2), (3, 2), (0, 0), (4, 0), (4, 4 :: real)]"
    by auto
  moreover have "list_all (\<lambda>d. 0 \<le> d) [2, 2, 2, 1, 1, 1 :: real]" by simp
  ultimately show ?thesis using h1 h2 h5 h8 fill by (intro conjI)
qed

subsection \<open>What is stored for a bag\<close>

lemma store_bag_empty: "store_bag ext [] = []"
  by (simp add: store_bag_def)

lemma store_bag_small: "length fed = 1 \<or> length fed = 2 \<Longrightarrow> store_bag ext fed = fed"
  by (auto simp: store_bag_def Let_def map_nth)

lemma store_bag_hull:
  assumes "2 < length fed"
  shows "store_bag ext fed \<noteq> []"
    and "butlast (store_bag ext fed) = GetCCWHullZ ext fed"
    and "hd (store_bag ext fed) = last (store_bag ext fed)"
    and "length (store_bag ext fed) = length (GetCCWHullZ ext fed) + 1"
proof -
  let ?h = "GetCCWHullZ ext fed"
  have eq: "store_bag ext fed = ?h @ [(?h @ [fresh_contents ext]) ! 0]"
    using assms by (simp add: store_bag_def Let_def)
  show "store_bag ext fed \<noteq> []" by (simp add: eq)
  show "butlast (store_bag ext fed) = ?h" by (simp add: eq)
  show "hd (store_bag ext fed) = last (store_bag ext fed)"
    by (cases ?h) (simp_all add: eq)
  show "length (store_bag ext fed) = length ?h + 1" by (simp add: eq)
qed

lemma stored_as_store_bag: "stored_as ext fed (store_bag ext fed)"
  unfolding stored_as_def
  using store_bag_empty [of ext] store_bag_small [of fed ext] store_bag_hull(1-3) [of fed ext]
  by auto

lemma UpdateCache_success:
  assumes "UpdateCache ext this = Inr (True, this')"
  shows "\<exists>this1 points table density medianPoints q3Points.
           Superclass_UpdateCache ext this = (True, this1) \<and>
           Points this1 = Some points \<and> Input this1 = Some table \<and>
           SafeDownCast (GetColumn table 2) = Some density \<and>
           fill_hull_builders ext points density = Inr (medianPoints, q3Points) \<and>
           this' = this1\<lparr>MedianPoints := store_bag ext medianPoints,
                         Q3Points := store_bag ext q3Points\<rparr>"
proof -
  obtain ok this1 where sup: "Superclass_UpdateCache ext this = (ok, this1)"
    by (cases "Superclass_UpdateCache ext this")
  with assms have ok: "ok" by (cases ok) (simp_all add: UpdateCache_def)
  from assms sup ok obtain points where pts: "Points this1 = Some points"
    by (cases "Points this1") (simp_all add: UpdateCache_def)
  from assms sup ok pts obtain table where tab: "Input this1 = Some table"
    by (cases "Input this1") (simp_all add: UpdateCache_def)
  from assms sup ok pts tab obtain density
    where den: "SafeDownCast (GetColumn table 2) = Some density"
    by (cases "SafeDownCast (GetColumn table 2)") (simp_all add: UpdateCache_def)
  from assms sup ok pts tab den obtain medianPoints q3Points
    where fill: "fill_hull_builders ext points density = Inr (medianPoints, q3Points)"
    by (cases "fill_hull_builders ext points density") (auto simp: UpdateCache_def)
  from assms sup ok pts tab den fill
  have "this' = this1\<lparr>MedianPoints := store_bag ext medianPoints,
                       Q3Points := store_bag ext q3Points\<rparr>"
    by (simp add: UpdateCache_def)
  moreover from sup ok have "Superclass_UpdateCache ext this = (True, this1)" by simp
  ultimately show ?thesis using pts tab den fill by blast
qed

text \<open>
  C2. After a cache rebuild that returned true, each stored polygon relates to the points
  its hull builder was fed as follows: no point, and the polygon is empty; one or two
  points, and the polygon is those points unchanged; more than two, and the polygon is
  the hull the builder extracts followed by one more vertex, which equals the first.
\<close>

theorem UpdateCache_stores:
  assumes "UpdateCache ext this = Inr (True, this')"
  shows "\<exists>this1 points table density medianPoints q3Points.
           Superclass_UpdateCache ext this = (True, this1) \<and>
           Points this1 = Some points \<and> Input this1 = Some table \<and>
           SafeDownCast (GetColumn table 2) = Some density \<and>
           fill_hull_builders ext points density = Inr (medianPoints, q3Points) \<and>
           stored_as ext medianPoints (MedianPoints this') \<and>
           stored_as ext q3Points (Q3Points this')"
proof -
  from UpdateCache_success [OF assms]
  obtain this1 points table density medianPoints q3Points
    where chain: "Superclass_UpdateCache ext this = (True, this1)"
        "Points this1 = Some points" "Input this1 = Some table"
        "SafeDownCast (GetColumn table 2) = Some density"
        "fill_hull_builders ext points density = Inr (medianPoints, q3Points)"
      and this': "this' = this1\<lparr>MedianPoints := store_bag ext medianPoints,
                                  Q3Points := store_bag ext q3Points\<rparr>"
    by blast
  have "stored_as ext medianPoints (MedianPoints this')"
    and "stored_as ext q3Points (Q3Points this')"
    by (simp_all add: this' stored_as_store_bag)
  with chain show ?thesis by blast
qed


theorem UpdateCache_stores_witness:
  "UpdateCache reference six_rows_plot = Inr (True, six_rows_rebuilt) \<and>
   MedianPoints six_rows_rebuilt = [(2, 2), (3, 2)] \<and>
   Q3Points six_rows_rebuilt = [(0, 0), (4, 0), (4, 4), (0, 0)] \<and>
   (\<exists>this1 points table density medianPoints q3Points.
      Superclass_UpdateCache reference six_rows_plot = (True, this1) \<and>
      Points this1 = Some points \<and> Input this1 = Some table \<and>
      SafeDownCast (GetColumn table 2) = Some density \<and>
      fill_hull_builders reference points density = Inr (medianPoints, q3Points) \<and>
      stored_as reference medianPoints (MedianPoints six_rows_rebuilt) \<and>
      stored_as reference q3Points (Q3Points six_rows_rebuilt))"
proof -
  have run: "UpdateCache reference six_rows_plot = Inr (True, six_rows_rebuilt)"
    by code_simp
  have "MedianPoints six_rows_rebuilt = [(2, 2), (3, 2)]"
    and "Q3Points six_rows_rebuilt = [(0, 0), (4, 0), (4, 4), (0, 0)]"
    by (simp_all add: six_rows_rebuilt_def)
  with run UpdateCache_stores [OF run] show ?thesis by (intro conjI)
qed

subsection \<open>The size of a stored polygon\<close>

lemma length_store_bag:
  "length (GetCCWHullZ ext fed) \<le> length fed \<Longrightarrow> length (store_bag ext fed) \<le> length fed + 1"
  using store_bag_hull(4) [of fed ext] store_bag_small [of fed ext] store_bag_empty [of ext]
  by (cases "2 < length fed") (auto simp: store_bag_def)

lemma set_push_vertex: "set (push_vertex st p) \<subseteq> insert p (set st)"
  by (induction st p rule: push_vertex.induct) auto

lemma set_foldl_push_vertex: "set (foldl push_vertex st ps) \<subseteq> set st \<union> set ps"
proof (induction ps arbitrary: st)
  case Nil
  then show ?case by simp
next
  case (Cons p ps)
  from Cons.IH [of "push_vertex st p"] set_push_vertex [of st p]
  show ?case by auto
qed

lemma set_chain: "set (chain ps) \<subseteq> set ps"
  using set_foldl_push_vertex [of "[]" ps] by (simp add: chain_def)

lemma set_insert_lex: "set (insert_lex p qs) = insert p (set qs)"
  by (induction qs) auto

lemma set_sort_lex: "set (sort_lex ps) = set ps"
  by (induction ps) (simp_all add: sort_lex_def set_insert_lex)

lemma length_remdups_le:
  assumes "set xs \<subseteq> set ps"
  shows "length (remdups xs) \<le> length ps"
proof -
  have "length (remdups xs) = card (set xs)" by (rule length_remdups_card_conv)
  also have "\<dots> \<le> card (set ps)" using assms by (intro card_mono) simp_all
  also have "\<dots> \<le> length ps" by (rule card_length)
  finally show ?thesis .
qed

lemma length_monotone_chain: "length (monotone_chain ps) \<le> length ps"
proof -
  let ?s = "remdups (sort_lex ps)"
  have s: "set ?s = set ps" by (simp add: set_sort_lex)
  have small: "length ?s \<le> length ps"
    by (rule length_remdups_le) (simp add: set_sort_lex)
  have "set (butlast (chain ?s) @ butlast (chain (rev ?s))) \<subseteq> set ps"
    using set_chain [of ?s] set_chain [of "rev ?s"] s
    by (auto dest!: in_set_butlastD)
  then have "length (remdups (butlast (chain ?s) @ butlast (chain (rev ?s)))) \<le> length ps"
    by (rule length_remdups_le)
  with small show ?thesis by (simp add: monotone_chain_def Let_def)
qed

text \<open>
  C8. Provided the hull extraction never yields more vertices than the builder holds
  points, after a cache rebuild that returned true neither stored polygon has more
  vertices than the points fed to its hull builder plus one.
\<close>

theorem UpdateCache_polygon_size:
  assumes "\<forall>ps. length (GetCCWHullZ ext ps) \<le> length ps"
      and "UpdateCache ext this = Inr (True, this')"
  shows "\<exists>this1 points table density medianPoints q3Points.
           Superclass_UpdateCache ext this = (True, this1) \<and>
           Points this1 = Some points \<and> Input this1 = Some table \<and>
           SafeDownCast (GetColumn table 2) = Some density \<and>
           fill_hull_builders ext points density = Inr (medianPoints, q3Points) \<and>
           length (MedianPoints this') \<le> length medianPoints + 1 \<and>
           length (Q3Points this') \<le> length q3Points + 1"
proof -
  from UpdateCache_success [OF assms(2)]
  obtain this1 points table density medianPoints q3Points
    where chain: "Superclass_UpdateCache ext this = (True, this1)"
        "Points this1 = Some points" "Input this1 = Some table"
        "SafeDownCast (GetColumn table 2) = Some density"
        "fill_hull_builders ext points density = Inr (medianPoints, q3Points)"
      and this': "this' = this1\<lparr>MedianPoints := store_bag ext medianPoints,
                                  Q3Points := store_bag ext q3Points\<rparr>"
    by blast
  from assms(1) have "length (store_bag ext medianPoints) \<le> length medianPoints + 1"
    and "length (store_bag ext q3Points) \<le> length q3Points + 1"
    by (blast intro: length_store_bag)+
  then have "length (MedianPoints this') \<le> length medianPoints + 1"
    and "length (Q3Points this') \<le> length q3Points + 1"
    by (simp_all add: this')
  with chain show ?thesis by blast
qed

theorem UpdateCache_polygon_size_witness:
  "(\<forall>ps. length (GetCCWHullZ reference ps) \<le> length ps) \<and>
   UpdateCache reference six_rows_plot = Inr (True, six_rows_rebuilt) \<and>
   fill_hull_builders reference [(2, 2), (3, 2), (0, 0), (4, 0), (4, 4), (0, 4)] [2, 2, 2, 1, 1, 1] =
     Inr ([(2, 2), (3, 2)], [(2, 2), (3, 2), (0, 0), (4, 0), (4, 4)]) \<and>
   length (MedianPoints six_rows_rebuilt) = 2 \<and> length (Q3Points six_rows_rebuilt) = 4 \<and>
   (\<exists>this1 points table density medianPoints q3Points.
      Superclass_UpdateCache reference six_rows_plot = (True, this1) \<and>
      Points this1 = Some points \<and> Input this1 = Some table \<and>
      SafeDownCast (GetColumn table 2) = Some density \<and>
      fill_hull_builders reference points density = Inr (medianPoints, q3Points) \<and>
      length (MedianPoints six_rows_rebuilt) \<le> length medianPoints + 1 \<and>
      length (Q3Points six_rows_rebuilt) \<le> length q3Points + 1)"
proof -
  have h1: "\<forall>ps. length (GetCCWHullZ reference ps) \<le> length ps"
    by (simp add: reference_def length_monotone_chain)
  have run: "UpdateCache reference six_rows_plot = Inr (True, six_rows_rebuilt)"
    by code_simp
  have fill: "fill_hull_builders reference [(2, 2), (3, 2), (0, 0), (4, 0), (4, 4), (0, 4)]
                [2, 2, 2, 1, 1, 1] =
              Inr ([(2, 2), (3, 2)], [(2, 2), (3, 2), (0, 0), (4, 0), (4, 4)])"
    by code_simp
  have "length (MedianPoints six_rows_rebuilt) = 2" and "length (Q3Points six_rows_rebuilt) = 4"
    by (simp_all add: six_rows_rebuilt_def)
  with h1 run fill UpdateCache_polygon_size [OF h1 run] show ?thesis by (intro conjI)
qed

subsection \<open>Binding the plot to a table\<close>

text \<open>
  C5. When the density column and the y column both exist and differ in their number of
  rows, \<open>SetInputData(table, yColumn, densityColumn)\<close> writes one error and returns
  the plot exactly as it was: table, column bindings and every other field.
\<close>

theorem SetInputData_mismatch_rejected:
  assumes "GetColumnByName t densityColumn = Some d" and "GetColumnByName t yColumn = Some y"
      and "GetNumberOfTuples d \<noteq> GetNumberOfTuples y"
  shows "SetInputData_y_density this (Some t) yColumn densityColumn =
           Inr ([''Input table not correctly initialized!''], this)"
  using assms by (simp add: SetInputData_y_density_def)

theorem SetInputData_mismatch_rejected_witness:
  "GetColumnByName short_density ''Density'' = Some (vtkDataArray [2, 1]) \<and>
   GetColumnByName short_density ''Y'' = Some (vtkDataArray [5, 7, 6]) \<and>
   GetNumberOfTuples (vtkDataArray [2, 1]) \<noteq> GetNumberOfTuples (vtkDataArray [5, 7, 6]) \<and>
   SetInputData_y_density six_rows_plot (Some short_density) ''Y'' ''Density'' =
     Inr ([''Input table not correctly initialized!''], six_rows_plot)"
proof -
  have h1: "GetColumnByName short_density ''Density'' = Some (vtkDataArray [2, 1])"
    by (simp add: GetColumnByName_def short_density_def)
  have h2: "GetColumnByName short_density ''Y'' = Some (vtkDataArray [5, 7, 6])"
    by (simp add: GetColumnByName_def short_density_def)
  have h3: "GetNumberOfTuples (vtkDataArray [2, 1]) \<noteq> GetNumberOfTuples (vtkDataArray [5, 7, 6])"
    by simp
  from SetInputData_mismatch_rejected [OF h1 h2 h3, of six_rows_plot] h1 h2 h3
  show ?thesis by (intro conjI)
qed

text \<open>
  C7, as the code has it. A call of \<open>SetInputData(table, yColumn, densityColumn)\<close> that
  passes the row-count check turns index-based X on. The overloads with an explicit x
  column, by name or by index, leave the flag as they found it.
\<close>

theorem SetInputData_index_based_x:
  "(SetInputData_y_density this table yColumn densityColumn = Inr ([], this') \<longrightarrow>
      UseIndexForXSeries this') \<and>
   UseIndexForXSeries (SetInputData_names this table xColumn yColumn densityColumn) =
     UseIndexForXSeries this \<and>
   (SetInputData_indices this table xIndex yIndex densityIndex = Inr this'' \<longrightarrow>
      UseIndexForXSeries this'' = UseIndexForXSeries this)"
proof (intro conjI impI)
  assume "SetInputData_y_density this table yColumn densityColumn = Inr ([], this')"
  then show "UseIndexForXSeries this'"
    by (auto simp: SetInputData_y_density_def split: option.splits if_splits)
next
  show "UseIndexForXSeries (SetInputData_names this table xColumn yColumn densityColumn) =
          UseIndexForXSeries this"
    by (simp add: SetInputData_names_def)
next
  assume "SetInputData_indices this table xIndex yIndex densityIndex = Inr this''"
  then show "UseIndexForXSeries this'' = UseIndexForXSeries this"
    by (auto simp: SetInputData_indices_def SetInputData_names_def split: option.splits)
qed

theorem SetInputData_index_based_x_witness:
  "SetInputData_y_density constructed (Some two_columns) ''Y'' ''Density'' =
     Inr ([], two_columns_plot) \<and>
   UseIndexForXSeries two_columns_plot \<and>
   \<not> UseIndexForXSeries constructed \<and>
   \<not> UseIndexForXSeries (SetInputData_names constructed (Some six_rows) ''X'' ''Y'' ''Density'') \<and>
   SetInputData_indices constructed (Some six_rows) 0 1 2 = Inr six_rows_plot \<and>
   \<not> UseIndexForXSeries six_rows_plot"
proof -
  have h1: "SetInputData_y_density constructed (Some two_columns) ''Y'' ''Density'' =
              Inr ([], two_columns_plot)"
    by code_simp
  have h2: "SetInputData_indices constructed (Some six_rows) 0 1 2 = Inr six_rows_plot"
    by code_simp
  have h3: "\<not> UseIndexForXSeries constructed" by (simp add: constructed_def)
  from SetInputData_index_based_x
         [where this = constructed and table = "Some two_columns" and yColumn = "''Y''"
            and densityColumn = "''Density''" and this' = two_columns_plot]
       h1
  have c1: "UseIndexForXSeries two_columns_plot" by blast
  from SetInputData_index_based_x
         [where this = constructed and table = "Some six_rows" and xColumn = "''X''"
            and yColumn = "''Y''" and densityColumn = "''Density''"]
       h3
  have c2: "\<not> UseIndexForXSeries
                (SetInputData_names constructed (Some six_rows) ''X'' ''Y'' ''Density'')"
    by blast
  from SetInputData_index_based_x
         [where this = constructed and table = "Some six_rows" and xIndex = 0
            and yIndex = 1 and densityIndex = 2 and this'' = six_rows_plot]
       h2 h3
  have c3: "\<not> UseIndexForXSeries six_rows_plot" by blast
  from h1 c1 h3 c2 h2 c3 show ?thesis by (intro conjI)
qed

text \<open>
  The claim C7 as it is worded fails: after the overload for a y and a density column has
  turned index-based X on, the overload with an explicit x column leaves it on.
\<close>

theorem SetInputData_explicit_x_keeps_index_based_x:
  "SetInputData_y_density constructed (Some six_rows) ''Y'' ''Density'' =
     Inr ([], (SetInputData_names constructed (Some six_rows) ''Y'' ''Y'' ''Density'')
                \<lparr>UseIndexForXSeries := True\<rparr>) \<and>
   UseIndexForXSeries
     (SetInputData_names
        ((SetInputData_names constructed (Some six_rows) ''Y'' ''Y'' ''Density'')
           \<lparr>UseIndexForXSeries := True\<rparr>)
        (Some six_rows) ''X'' ''Y'' ''Density'')"
  by code_simp

text \<open>
  C10. \<open>SetInputData(table, yColumn, densityColumn)\<close> calls \<open>GetNumberOfTuples\<close> on
  both columns it looks up without testing them, so the call is defined exactly when the
  table is there and has both columns; then it returns, having rejected or accepted the
  binding.
\<close>

theorem SetInputData_defined_iff_columns_exist:
  "(\<exists>r. SetInputData_y_density this table yColumn densityColumn = Inr r) =
   (\<exists>t. table = Some t \<and> GetColumnByName t yColumn \<noteq> None \<and>
         GetColumnByName t densityColumn \<noteq> None)"
  by (auto simp: SetInputData_y_density_def split: option.splits)

theorem SetInputData_defined_iff_columns_exist_witness:
  "(\<exists>r. SetInputData_y_density constructed (Some two_columns) ''Y'' ''Density'' = Inr r) \<and>
   GetColumnByName two_columns ''Y'' \<noteq> None \<and>
   GetColumnByName two_columns ''Density'' \<noteq> None \<and>
   GetColumnByName two_columns ''Weight'' = None \<and>
   SetInputData_y_density constructed (Some two_columns) ''Y'' ''Weight'' = Inl NullDereference"
proof -
  have y: "GetColumnByName two_columns ''Y'' \<noteq> None"
    and d: "GetColumnByName two_columns ''Density'' \<noteq> None"
    and w: "GetColumnByName two_columns ''Weight'' = None"
    by (simp_all add: GetColumnByName_def two_columns_def)
  have "\<exists>t. Some two_columns = Some t \<and> GetColumnByName t ''Y'' \<noteq> None \<and>
             GetColumnByName t ''Density'' \<noteq> None"
    using y d by (intro exI [of _ two_columns] conjI refl)
  then have ok: "\<exists>r. SetInputData_y_density constructed (Some two_columns) ''Y'' ''Density'' = Inr r"
    by (rule SetInputData_defined_iff_columns_exist [THEN iffD2])
  have bad: "SetInputData_y_density constructed (Some two_columns) ''Y'' ''Weight'' =
               Inl NullDereference"
    using w by (simp add: SetInputData_y_density_def GetColumnByName_def two_columns_def)
  from ok y d w bad show ?thesis by (intro conjI)
qed

subsection \<open>The tooltip\<close>





subsection \<open>The brush after painting\<close>

lemma Paint_bags_Brush:
  assumes "Visible this" and "Points this \<noteq> None" and "Input this \<noteq> None"
      and "BagVisible this"
  shows "\<exists>painter'. Paint ext this painter =
           Superclass_Paint ext (this\<lparr>Brush := (Brush this)\<lparr>opacity := 128\<rparr>\<rparr>) painter'"
  using assms
  by (auto simp: Paint_def Let_def GetColor_def SetColor_def SetOpacity_def)

lemma PaintLegend_Brush: "Brush (fst (snd (PaintLegend this painter rect))) = Brush this"
  by (cases rect)
     (simp add: PaintLegend_def Let_def GetColor_def GetOpacity_def SetColor_def SetOpacity_def)

text \<open>
  C9. When \<open>Paint\<close> draws the bags (the plot is visible, has points and a table, and
  bags are enabled) and the base class's paint leaves the brush alone, \<open>Paint\<close> returns
  with the brush at opacity 128 whatever the opacity was, and with its red, green and
  blue as on entry. \<open>PaintLegend\<close> returns with the whole brush as on entry.
\<close>

theorem Paint_leaves_opacity_128:
  assumes "Visible this" and "Points this \<noteq> None" and "Input this \<noteq> None"
      and "BagVisible this"
      and "\<forall>q p. Brush (fst (snd (Superclass_Paint ext q p))) = Brush q"
  shows "opacity (Brush (fst (snd (Paint ext this painter)))) = 128 \<and>
         red (Brush (fst (snd (Paint ext this painter)))) = red (Brush this) \<and>
         green (Brush (fst (snd (Paint ext this painter)))) = green (Brush this) \<and>
         blue (Brush (fst (snd (Paint ext this painter)))) = blue (Brush this) \<and>
         Brush (fst (snd (PaintLegend this painter rect))) = Brush this"
proof -
  from Paint_bags_Brush [OF assms(1-4)] obtain painter'
    where "Paint ext this painter =
             Superclass_Paint ext (this\<lparr>Brush := (Brush this)\<lparr>opacity := 128\<rparr>\<rparr>) painter'"
    by blast
  with assms(5) have "Brush (fst (snd (Paint ext this painter))) = (Brush this)\<lparr>opacity := 128\<rparr>"
    by simp
  then show ?thesis by (simp add: PaintLegend_Brush)
qed

theorem Paint_leaves_opacity_128_witness:
  "Visible faint_plot \<and> Points faint_plot \<noteq> None \<and> Input faint_plot \<noteq> None \<and>
   BagVisible faint_plot \<and>
   (\<forall>q p. Brush (fst (snd (Superclass_Paint reference q p))) = Brush q) \<and>
   opacity (Brush faint_plot) = 40 \<and>
   Brush (fst (snd (Paint reference faint_plot []))) =
     \<lparr>red = 200, green = 100, blue = 51, opacity = 128\<rparr> \<and>
   Brush (fst (snd (PaintLegend faint_plot [] (0, 0, 20, 10)))) =
     \<lparr>red = 200, green = 100, blue = 51, opacity = 40\<rparr>"
proof -
  have h1: "Visible faint_plot" and h2: "Points faint_plot \<noteq> None"
    and h3: "Input faint_plot \<noteq> None" and h4: "BagVisible faint_plot"
    by code_simp+
  have h5: "\<forall>q p. Brush (fst (snd (Superclass_Paint reference q p))) = Brush q"
    by (simp add: reference_def PlotPoints_Paint_def split: option.splits)
  have b: "Brush faint_plot = \<lparr>red = 200, green = 100, blue = 51, opacity = 40\<rparr>"
    by (simp add: faint_plot_def)
  from Paint_leaves_opacity_128 [OF h1 h2 h3 h4 h5, where painter = "[]" and rect = "(0, 0, 20, 10)"]
  have "Brush (fst (snd (Paint reference faint_plot []))) =
          \<lparr>red = 200, green = 100, blue = 51, opacity = 128\<rparr>"
    and "Brush (fst (snd (PaintLegend faint_plot [] (0, 0, 20, 10)))) =
          \<lparr>red = 200, green = 100, blue = 51, opacity = 40\<rparr>"
    by (simp_all add: b vtkBrush.equality)
  with h1 h2 h3 h4 h5 b show ?thesis by simp
qed

subsection \<open>Where the density column is looked for\<close>

lemma UpdateCache_column_2:
  assumes "Superclass_UpdateCache ext this = (True, this1)"
      and "Points this1 = Some points" and "Input this1 = Some table"
      and "SafeDownCast (GetColumn table 2) = None"
  shows "UpdateCache ext this = Inr (False, this1\<lparr>MedianPoints := [], Q3Points := []\<rparr>)"
  using assms by (simp add: UpdateCache_def)

text \<open>
  C4. The rebuild takes the density from column 2 of the table, not from the column bound
  as density. On a table of a y column and a density column, bound through
  \<open>SetInputData(table, yColumn, densityColumn)\<close>, the binding resolves to the density
  array and the base class builds the three points, yet the rebuild returns false.
\<close>

theorem UpdateCache_ignores_density_binding:
  "SetInputData_y_density constructed (Some two_columns) ''Y'' ''Density'' =
     Inr ([], two_columns_plot) \<and>
   SafeDownCast (map_option snd
     (GetInputAbstractArrayToProcess two_columns_plot 2 (Input two_columns_plot))) = Some [2, 1, 1] \<and>
   Superclass_UpdateCache reference two_columns_plot =
     (True, two_columns_plot\<lparr>Points := Some [(0, 5), (1, 7), (2, 6)]\<rparr>) \<and>
   GetColumn two_columns 2 = None \<and>
   UpdateCache reference two_columns_plot =
     Inr (False, two_columns_plot\<lparr>Points := Some [(0, 5), (1, 7), (2, 6)]\<rparr>)"
  by code_simp


end
